theory Spec2Isabelle
  imports Main "HOL-Library.Word"
begin

unbundle bit_operations_syntax

section \<open>JavaScript strings and numbers used by the session tokens\<close>

text \<open>
  JavaScript strings are modelled as \<^typ>\<open>string\<close>; \<open>charCodeAt\<close> is \<^const>\<open>of_char\<close>.
  Clock readings (\<open>Date.now()\<close>) and the numbers \<open>parseInt\<close> returns are integers;
  \<open>NaN\<close> is \<open>None\<close>. The only arithmetic done on them is one addition and one comparison,
  and \<open>new Date\<close> clips to the range of time values, which lies inside the range where
  doubles are exact integers.
\<close>

text \<open>\<open>String.prototype.split\<close> with a one-character separator.\<close>

fun split_on :: "char \<Rightarrow> string \<Rightarrow> string list" where
  "split_on sep [] = [[]]"
| "split_on sep (c # cs) =
     (if c = sep then [] # split_on sep cs
      else (c # hd (split_on sep cs)) # tl (split_on sep cs))"

definition digit_chars :: string where
  "digit_chars = ''0123456789abcdefghijklmnopqrstuvwxyz''"

text \<open>The digits of a non-negative integer in radix \<open>b\<close> (\<open>2 \<le> b \<le> 36\<close>), most significant first.\<close>

function digitsRadix :: "int \<Rightarrow> int \<Rightarrow> string" where
  "digitsRadix b n =
     (if b < 2 \<or> n < b then [digit_chars ! nat n]
      else digitsRadix b (n div b) @ [digit_chars ! nat (n mod b)])"
  by pat_completeness auto
termination
  by (relation "measure (\<lambda>(b, n). nat n)") (auto simp: int_div_less_self)

text \<open>\<open>Number.prototype.toString(radix)\<close> on an integer.\<close>

definition toStringRadix :: "int \<Rightarrow> int \<Rightarrow> string" where
  "toStringRadix b i =
     (if i < 0 then CHR ''-'' # digitsRadix b (- i) else digitsRadix b i)"

definition is_ws :: "char \<Rightarrow> bool" where
  "is_ws c = ((of_char c :: nat) \<in> {9, 10, 11, 12, 13, 32, 160})"

definition is_digit :: "char \<Rightarrow> bool" where
  "is_digit c = (48 \<le> (of_char c :: nat) \<and> (of_char c :: nat) \<le> 57)"

definition digit_val :: "char \<Rightarrow> int" where
  "digit_val c = of_char c - 48"

text \<open>
  \<open>parseInt(s, 10)\<close>: leading white space is skipped, one sign is read, then the longest
  run of decimal digits; with no digit the result is \<open>NaN\<close>.
\<close>

definition parseInt :: "string \<Rightarrow> int option" where
  "parseInt s =
     (let s1 = dropWhile is_ws s;
          neg = (case s1 of c # _ \<Rightarrow> c = CHR ''-'' | [] \<Rightarrow> False);
          s2 = (case s1 of c # r \<Rightarrow> if c = CHR ''-'' \<or> c = CHR ''+'' then r else s1 | [] \<Rightarrow> s1);
          ds = takeWhile is_digit s2
      in if ds = [] then None
         else Some ((if neg then - 1 else 1) * foldl (\<lambda>a c. a * 10 + digit_val c) 0 ds))"

datatype jsdate = Date int | InvalidDate

text \<open>\<open>new Date(v)\<close> for a number \<open>v\<close>: outside \<open>\<plusminus>8.64e15\<close> ms, and for \<open>NaN\<close>, the date is invalid.\<close>

definition newDate :: "int option \<Rightarrow> jsdate" where
  "newDate v =
     (case v of None \<Rightarrow> InvalidDate
      | Some t \<Rightarrow> if \<bar>t\<bar> \<le> 8640000000000000 then Date t else InvalidDate)"

definition getTime :: "jsdate \<Rightarrow> int option" where
  "getTime d = (case d of Date t \<Rightarrow> Some t | InvalidDate \<Rightarrow> None)"

text \<open>\<open>a > b\<close> where \<open>b\<close> may be \<open>NaN\<close>: every comparison with \<open>NaN\<close> is false.\<close>

definition js_gt :: "int \<Rightarrow> int option \<Rightarrow> bool" where
  "js_gt a b = (case b of None \<Rightarrow> False | Some x \<Rightarrow> a > x)"

definition js_add :: "int option \<Rightarrow> int \<Rightarrow> int option" where
  "js_add a b = map_option (\<lambda>x. x + b) a"

section \<open>Session tokens (FIDO2Provider and EmailPasswordProvider)\<close>

record VerifyResult =
  vr_valid :: bool
  vr_userId :: "string option"
  vr_expiresAt :: "jsdate option"
  vr_error :: "string option"

text \<open>\<open>process.env.JWT_SECRET || 'change-this-in-production'\<close>\<close>

definition jwt_secret :: "string option \<Rightarrow> string" where
  "jwt_secret env =
     (case env of None \<Rightarrow> ''change-this-in-production''
      | Some s \<Rightarrow> if s = [] then ''change-this-in-production'' else s)"

text \<open>
  \<open>FIDO2Provider.signToken\<close>. After each round \<open>hash & hash\<close> brings the value back to a
  signed 32-bit integer, so the loop is arithmetic on \<^typ>\<open>32 word\<close>.
\<close>

definition hash_step :: "32 word \<Rightarrow> char \<Rightarrow> 32 word" where
  "hash_step hash c = push_bit 5 hash - hash + of_nat (of_char c)"

definition signToken :: "string option \<Rightarrow> string \<Rightarrow> string \<Rightarrow> string" where
  "signToken env userId timestamp =
     (let secret = jwt_secret env;
          data = userId @ '':'' @ timestamp @ '':'' @ secret;
          hash = foldl hash_step 0 data
      in toStringRadix 36 \<bar>sint hash\<bar>)"

text \<open>
  \<open>EmailPasswordProvider.signToken\<close>. SHA-256 is Node's \<open>crypto\<close> module; it is the
  parameter \<open>sha256\<close>, and \<open>digest('hex')\<close> prints each byte as two hexadecimal digits.
\<close>

definition hex_byte :: "8 word \<Rightarrow> string" where
  "hex_byte b = [digit_chars ! (unat b div 16), digit_chars ! (unat b mod 16)]"

definition digest_hex :: "8 word list \<Rightarrow> string" where
  "digest_hex bs = concat (map hex_byte bs)"

definition email_signToken ::
  "(string \<Rightarrow> 8 word list) \<Rightarrow> string option \<Rightarrow> string \<Rightarrow> string \<Rightarrow> string" where
  "email_signToken sha256 env userId timestamp =
     (let secret = jwt_secret env
      in digest_hex (sha256 (userId @ '':'' @ timestamp @ '':'' @ secret)))"

text \<open>
  \<open>generateSessionToken\<close> (FIDO2) and \<open>generateToken\<close> (email/password) have the same
  body; \<open>sign\<close> is the provider's \<open>signToken\<close> and \<open>now\<close> the reading of \<open>Date.now()\<close>.
\<close>

definition mint_token :: "(string \<Rightarrow> string \<Rightarrow> string) \<Rightarrow> int \<Rightarrow> string \<Rightarrow> string" where
  "mint_token sign now userId =
     (let timestamp = toStringRadix 10 now;
          signature = sign userId timestamp
      in userId @ '':'' @ timestamp @ '':'' @ signature)"

definition invalid_result :: "string \<Rightarrow> VerifyResult" where
  "invalid_result e = \<lparr>vr_valid = False, vr_userId = None, vr_expiresAt = None, vr_error = Some e\<rparr>"

text \<open>
  The body shared by \<open>FIDO2Provider.verify\<close> and \<open>EmailPasswordProvider.verify\<close>. Nothing
  in it can throw on a string, so the \<open>catch\<close> branch (\<open>'Token verification failed'\<close>)
  is never taken.
\<close>

definition verify_token :: "(string \<Rightarrow> string \<Rightarrow> string) \<Rightarrow> int \<Rightarrow> string \<Rightarrow> VerifyResult" where
  "verify_token sign now token =
     (let parts = split_on CHR '':'' token
      in if length parts \<noteq> 3 then invalid_result ''Invalid token format''
         else
           let userId = parts ! 0; timestamp = parts ! 1; signature = parts ! 2;
               expectedSignature = sign userId timestamp
           in if signature \<noteq> expectedSignature then invalid_result ''Invalid token signature''
              else
                let tokenTime = parseInt timestamp;
                    expiresAt = newDate (js_add tokenTime (24 * 60 * 60 * 1000))
                in if js_gt now (getTime expiresAt) then invalid_result ''Token expired''
                   else \<lparr>vr_valid = True, vr_userId = Some userId,
                          vr_expiresAt = Some expiresAt, vr_error = None\<rparr>)"

definition generateSessionToken :: "string option \<Rightarrow> int \<Rightarrow> string \<Rightarrow> string" where
  "generateSessionToken env now userId = mint_token (signToken env) now userId"

definition verify :: "string option \<Rightarrow> int \<Rightarrow> string \<Rightarrow> VerifyResult" where
  "verify env now token = verify_token (signToken env) now token"

definition email_generateToken ::
  "(string \<Rightarrow> 8 word list) \<Rightarrow> string option \<Rightarrow> int \<Rightarrow> string \<Rightarrow> string" where
  "email_generateToken sha256 env now userId = mint_token (email_signToken sha256 env) now userId"

definition email_verify ::
  "(string \<Rightarrow> 8 word list) \<Rightarrow> string option \<Rightarrow> int \<Rightarrow> string \<Rightarrow> VerifyResult" where
  "email_verify sha256 env now token = verify_token (email_signToken sha256 env) now token"

section \<open>Identity registry\<close>

datatype IdentityType = device | biometric | social | wallet | government

text \<open>Values of the attribute bag \<open>data: Record<string, unknown>\<close>.\<close>

datatype jsvalue = VBool bool | VString string | VNumber int

record Identity =
  i_id :: string
  i_type :: IdentityType
  i_userId :: string
  i_provider :: string
  i_data :: "string \<rightharpoonup> jsvalue"
  i_verified :: bool
  i_createdAt :: int
  i_updatedAt :: int

text \<open>\<open>Omit<Identity, 'id' | 'createdAt' | 'updatedAt'>\<close>, the argument of \<open>register\<close>.\<close>

record NewIdentity =
  n_type :: IdentityType
  n_userId :: string
  n_provider :: string
  n_data :: "string \<rightharpoonup> jsvalue"
  n_verified :: bool

text \<open>
  \<open>Partial<Identity>\<close>, the argument of \<open>update\<close>: \<open>None\<close> is a key the payload lacks,
  or one whose value is \<open>undefined\<close>.
\<close>

record PartialIdentity =
  p_id :: "string option"
  p_type :: "IdentityType option"
  p_userId :: "string option"
  p_provider :: "string option"
  p_data :: "(string \<rightharpoonup> jsvalue) option"
  p_verified :: "bool option"
  p_createdAt :: "int option"
  p_updatedAt :: "int option"

text \<open>
  What the registry puts into the storage adapter. \<open>register\<close> and \<open>update\<close> write an
  identity object (\<open>Row\<close>), \<open>register\<close> and \<open>delete\<close> write an array of identities
  (\<open>Index\<close>). The adapter is untyped (\<open>get<T>\<close> is a cast), so \<open>update\<close> can be handed an
  array: its spread \<open>{...existing, ...data, id, createdAt, updatedAt}\<close> then builds an object
  that has the array's elements under the keys \<open>0, 1, ...\<close> and the payload's fields
  (\<open>Spread\<close>). Identity objects are never mutated in place, so entries are values.
\<close>

datatype stored =
    Row Identity
  | Index "Identity list"
  | Spread "Identity list" PartialIdentity

text \<open>
  \<open>InMemoryStorage\<close>: one \<open>Map\<close> from key strings to entries. The registry never passes a
  ttl, so no entry expires. Rows live under \<open>identity:<id>\<close> and a user's index under
  \<open>identity:user:<userId>\<close>, in the same key space.
\<close>

type_synonym storage = "string \<rightharpoonup> stored"

definition storagePrefix :: string where
  "storagePrefix = ''identity:''"

definition row_key :: "string \<Rightarrow> string" where
  "row_key ident = storagePrefix @ ident"

definition user_key :: "string \<Rightarrow> string" where
  "user_key userId = storagePrefix @ ''user:'' @ userId"

text \<open>What a \<open>throw\<close> carries: an \<open>Error\<close> with its message, or some other value.\<close>

datatype thrown = Error string | NonError

text \<open>
  \<open>generateId\<close>: \<open>now\<close> is the reading of \<open>Date.now()\<close> and \<open>rnd\<close> the string
  \<open>Math.random().toString(36).substring(2, 15)\<close>.
\<close>

definition generateId :: "int \<Rightarrow> string \<Rightarrow> string" where
  "generateId now rnd = toStringRadix 10 now @ ''-'' @ rnd"

text \<open>\<open>get\<close> returns whatever the key holds.\<close>

definition registry_get :: "storage \<Rightarrow> string \<Rightarrow> stored option" where
  "registry_get st ident = st (row_key ident)"

text \<open>\<open>findByUser\<close>: \<open>identities || []\<close>; every object and every array is truthy.\<close>

definition findByUser :: "storage \<Rightarrow> string \<Rightarrow> stored" where
  "findByUser st userId = (case st (user_key userId) of None \<Rightarrow> Index [] | Some identities \<Rightarrow> identities)"

text \<open>
  \<open>IdentityRegistry.register\<close>; \<open>tnow\<close> and \<open>rnd\<close> feed \<open>generateId\<close>, \<open>date\<close> is
  \<open>new Date()\<close>. The row is written first. The array spread \<open>[...userIdentities, newIdentity]\<close>
  throws a \<open>TypeError\<close> when the index key holds an object that is not an array.
\<close>

definition registry_register ::
  "int \<Rightarrow> string \<Rightarrow> int \<Rightarrow> NewIdentity \<Rightarrow> storage \<Rightarrow> (thrown + Identity) \<times> storage" where
  "registry_register tnow rnd date identity st =
     (let ident = generateId tnow rnd;
          now = date;
          newIdentity = \<lparr>i_id = ident, i_type = n_type identity, i_userId = n_userId identity,
                         i_provider = n_provider identity, i_data = n_data identity,
                         i_verified = n_verified identity, i_createdAt = now, i_updatedAt = now\<rparr>;
          st1 = st(row_key ident \<mapsto> Row newIdentity)
      in case findByUser st1 (n_userId identity) of
           Index userIdentities \<Rightarrow>
             (Inr newIdentity,
              st1(user_key (n_userId identity) \<mapsto> Index (userIdentities @ [newIdentity])))
         | Row r \<Rightarrow> (Inl (Error ''userIdentities is not iterable''), st1)
         | Spread items props \<Rightarrow> (Inl (Error ''userIdentities is not iterable''), st1))"

definition or_else :: "'a option \<Rightarrow> 'a \<Rightarrow> 'a" where
  "or_else v d = (case v of Some x \<Rightarrow> x | None \<Rightarrow> d)"

text \<open>The object spread \<open>{...a, ...b}\<close> on the identity fields.\<close>

definition spread_fields :: "PartialIdentity \<Rightarrow> PartialIdentity \<Rightarrow> PartialIdentity" where
  "spread_fields a b =
     \<lparr>p_id = (case p_id b of Some v \<Rightarrow> Some v | None \<Rightarrow> p_id a),
      p_type = (case p_type b of Some v \<Rightarrow> Some v | None \<Rightarrow> p_type a),
      p_userId = (case p_userId b of Some v \<Rightarrow> Some v | None \<Rightarrow> p_userId a),
      p_provider = (case p_provider b of Some v \<Rightarrow> Some v | None \<Rightarrow> p_provider a),
      p_data = (case p_data b of Some v \<Rightarrow> Some v | None \<Rightarrow> p_data a),
      p_verified = (case p_verified b of Some v \<Rightarrow> Some v | None \<Rightarrow> p_verified a),
      p_createdAt = (case p_createdAt b of Some v \<Rightarrow> Some v | None \<Rightarrow> p_createdAt a),
      p_updatedAt = (case p_updatedAt b of Some v \<Rightarrow> Some v | None \<Rightarrow> p_updatedAt a)\<rparr>"

text \<open>
  \<open>IdentityRegistry.update\<close>: the spread \<open>{...existing, ...data}\<close> followed by the three
  forced fields; \<open>date\<close> is \<open>new Date()\<close>. \<open>existing\<close> is whatever the key holds: on an
  array, \<open>existing.id\<close> and \<open>existing.createdAt\<close> are \<open>undefined\<close>.
\<close>

definition registry_update ::
  "int \<Rightarrow> string \<Rightarrow> PartialIdentity \<Rightarrow> storage \<Rightarrow> (thrown + stored) \<times> storage" where
  "registry_update date ident data st =
     (case registry_get st ident of
        None \<Rightarrow> (Inl (Error (''Identity '' @ ident @ '' not found'')), st)
      | Some existing \<Rightarrow>
          let updated =
                (case existing of
                   Row r \<Rightarrow>
                     Row \<lparr>i_id = i_id r,
                          i_type = or_else (p_type data) (i_type r),
                          i_userId = or_else (p_userId data) (i_userId r),
                          i_provider = or_else (p_provider data) (i_provider r),
                          i_data = or_else (p_data data) (i_data r),
                          i_verified = or_else (p_verified data) (i_verified r),
                          i_createdAt = i_createdAt r,
                          i_updatedAt = date\<rparr>
                 | Index items \<Rightarrow>
                     Spread items (data\<lparr>p_id := None, p_createdAt := None,
                                         p_updatedAt := Some date\<rparr>)
                 | Spread items props \<Rightarrow>
                     Spread items ((spread_fields props data)
                        \<lparr>p_id := p_id props, p_createdAt := p_createdAt props,
                         p_updatedAt := Some date\<rparr>));
              st1 = st(row_key ident \<mapsto> updated)
          in (Inr updated, st1))"

text \<open>\<open>`${identity.userId}`\<close> on whatever \<open>get\<close> returned.\<close>

definition userId_text :: "stored \<Rightarrow> string" where
  "userId_text v =
     (case v of Row r \<Rightarrow> i_userId r
      | Index items \<Rightarrow> ''undefined''
      | Spread items props \<Rightarrow> or_else (p_userId props) ''undefined'')"

text \<open>
  \<open>IdentityRegistry.delete\<close>. The row is deleted first; \<open>userIdentities.filter\<close> throws a
  \<open>TypeError\<close> when the index key holds an object that is not an array.
\<close>

definition registry_delete :: "string \<Rightarrow> storage \<Rightarrow> (thrown + bool) \<times> storage" where
  "registry_delete ident st =
     (case registry_get st ident of
        None \<Rightarrow> (Inr False, st)
      | Some identity \<Rightarrow>
          let st1 = st(row_key ident := None)
          in case findByUser st1 (userId_text identity) of
               Index userIdentities \<Rightarrow>
                 let filtered = filter (\<lambda>i. i_id i \<noteq> ident) userIdentities
                 in (Inr True, st1(user_key (userId_text identity) \<mapsto> Index filtered))
             | Row r \<Rightarrow> (Inl (Error ''userIdentities.filter is not a function''), st1)
             | Spread items props \<Rightarrow>
                 (Inl (Error ''userIdentities.filter is not a function''), st1))"

definition no_fields :: PartialIdentity where
  "no_fields = \<lparr>p_id = None, p_type = None, p_userId = None, p_provider = None, p_data = None,
                 p_verified = None, p_createdAt = None, p_updatedAt = None\<rparr>"

text \<open>
  \<open>verifyIdentity\<close> returns \<open>{verified, error?}\<close>; the proof argument is not read. An
  error thrown by \<open>update\<close> would propagate (\<open>Inl\<close>).
\<close>

definition verifyIdentity ::
  "int \<Rightarrow> string \<Rightarrow> storage \<Rightarrow> (thrown + bool \<times> string option) \<times> storage" where
  "verifyIdentity date ident st =
     (case registry_get st ident of
        None \<Rightarrow> (Inr (False, Some ''Identity not found''), st)
      | Some identity \<Rightarrow>
          (case registry_update date ident (no_fields\<lparr>p_verified := Some True\<rparr>) st of
             (Inl e, st1) \<Rightarrow> (Inl e, st1)
           | (Inr u, st1) \<Rightarrow> (Inr (True, None), st1)))"

text \<open>\<open>identity.data\<close> on whatever \<open>get\<close> returned; spreading \<open>undefined\<close> adds nothing.\<close>

definition data_of :: "stored \<Rightarrow> (string \<rightharpoonup> jsvalue)" where
  "data_of v =
     (case v of Row r \<Rightarrow> i_data r
      | Index items \<Rightarrow> Map.empty
      | Spread items props \<Rightarrow> or_else (p_data props) Map.empty)"

text \<open>
  \<open>deactivate\<close> returns \<open>{success, error?}\<close>; \<open>isoTime\<close> is \<open>new Date().toISOString()\<close> and
  \<open>date\<close> the \<open>new Date()\<close> inside \<open>update\<close>.
\<close>

definition deactivate ::
  "int \<Rightarrow> string \<Rightarrow> string \<Rightarrow> string \<Rightarrow> storage
     \<Rightarrow> (thrown + bool \<times> string option) \<times> storage" where
  "deactivate date isoTime ident reason st =
     (case registry_get st ident of
        None \<Rightarrow> (Inr (False, Some ''Identity not found''), st)
      | Some identity \<Rightarrow>
          let data = (data_of identity)(''deactivated'' \<mapsto> VBool True,
                        ''deactivatedAt'' \<mapsto> VString isoTime,
                        ''deactivationReason'' \<mapsto> VString reason)
          in (case registry_update date ident
                     (no_fields\<lparr>p_verified := Some False, p_data := Some data\<rparr>) st of
                (Inl e, st1) \<Rightarrow> (Inl e, st1)
              | (Inr u, st1) \<Rightarrow> (Inr (True, None), st1)))"

text \<open>
  \<open>findByType\<close> and \<open>hasVerifiedIdentity\<close>: \<open>allIdentities.filter\<close> throws a \<open>TypeError\<close>
  on an object that is not an array.
\<close>

definition findByType :: "storage \<Rightarrow> string \<Rightarrow> IdentityType \<Rightarrow> thrown + Identity list" where
  "findByType st userId ty =
     (case findByUser st userId of
        Index allIdentities \<Rightarrow> Inr (filter (\<lambda>identity. i_type identity = ty) allIdentities)
      | Row r \<Rightarrow> Inl (Error ''allIdentities.filter is not a function'')
      | Spread items props \<Rightarrow> Inl (Error ''allIdentities.filter is not a function''))"

definition hasVerifiedIdentity :: "storage \<Rightarrow> string \<Rightarrow> IdentityType \<Rightarrow> thrown + bool" where
  "hasVerifiedIdentity st userId ty =
     (case findByType st userId ty of
        Inl e \<Rightarrow> Inl e
      | Inr identities \<Rightarrow> Inr (list_ex i_verified identities))"

definition empty_storage :: storage where
  "empty_storage = Map.empty"

section \<open>Plugin loader\<close>

text \<open>
  A plugin as the loader sees it. \<open>initialize\<close> and \<open>destroy\<close> are the plugin's own code:
  each either completes (\<open>None\<close>) or throws. \<open>pl_provider\<close> tells whether the object has a
  \<open>provider\<close> property.
\<close>

record IPlugin =
  pl_name :: string
  pl_version :: string
  pl_type :: string
  pl_provider :: bool
  pl_initialize :: "thrown option"
  pl_destroy :: "thrown option"

text \<open>\<open>Map<string, IPlugin>\<close>: a JavaScript \<open>Map\<close> keeps insertion order.\<close>

type_synonym plugins = "(string \<times> IPlugin) list"

definition loader_get :: "plugins \<Rightarrow> string \<Rightarrow> IPlugin option" where
  "loader_get ps pluginName = map_of ps pluginName"

definition loader_register :: "IPlugin \<Rightarrow> plugins \<Rightarrow> (thrown + unit) \<times> plugins" where
  "loader_register plugin ps =
     (if map_of ps (pl_name plugin) \<noteq> None
      then (Inl (Error (''Plugin \"'' @ pl_name plugin @ ''\" is already registered'')), ps)
      else (Inr (), ps @ [(pl_name plugin, plugin)]))"

definition loader_initialize :: "string \<Rightarrow> plugins \<Rightarrow> (thrown + unit) \<times> plugins" where
  "loader_initialize pluginName ps =
     (case map_of ps pluginName of
        None \<Rightarrow> (Inl (Error (''Plugin \"'' @ pluginName @ ''\" not found'')), ps)
      | Some plugin \<Rightarrow>
          (case pl_initialize plugin of Some e \<Rightarrow> (Inl e, ps) | None \<Rightarrow> (Inr (), ps)))"

definition getAll :: "plugins \<Rightarrow> IPlugin list" where
  "getAll ps = map snd ps"

definition getAuthPlugins :: "plugins \<Rightarrow> IPlugin list" where
  "getAuthPlugins ps = filter pl_provider (getAll ps)"

text \<open>
  \<open>PluginLoader.unregister\<close>: \<open>await plugin.destroy()\<close> comes before
  \<open>this.plugins.delete(pluginName)\<close>, with no \<open>try\<close> around it.
\<close>

definition unregister :: "string \<Rightarrow> plugins \<Rightarrow> (thrown + unit) \<times> plugins" where
  "unregister pluginName ps =
     (case map_of ps pluginName of
        None \<Rightarrow> (Inl (Error (''Plugin \"'' @ pluginName @ ''\" not found'')), ps)
      | Some plugin \<Rightarrow>
          (case pl_destroy plugin of
             Some e \<Rightarrow> (Inl e, ps)
           | None \<Rightarrow> (Inr (), filter (\<lambda>(k, v). k \<noteq> pluginName) ps)))"

fun destroy_each :: "IPlugin list \<Rightarrow> thrown option" where
  "destroy_each [] = None"
| "destroy_each (plugin # rest) =
     (case pl_destroy plugin of Some e \<Rightarrow> Some e | None \<Rightarrow> destroy_each rest)"

definition destroyAll :: "plugins \<Rightarrow> (thrown + unit) \<times> plugins" where
  "destroyAll ps =
     (case destroy_each (getAll ps) of Some e \<Rightarrow> (Inl e, ps) | None \<Rightarrow> (Inr (), []))"

section \<open>FIDO2 provider\<close>

record FIDO2Config =
  rpName :: string
  rpId :: string
  origin :: string
  timeout :: int

record FIDO2Credential =
  c_id :: string
  c_publicKey :: string
  c_counter :: nat
  c_userId :: string
  c_transports :: "string list option"
  c_createdAt :: int

record AuthResult =
  ar_success :: bool
  ar_token :: "string option"
  ar_userId :: "string option"
  ar_metadata :: "(string \<times> nat) option"
  ar_error :: "string option"

text \<open>
  The provider's two private maps. \<open>ar_metadata\<close> above is the pair
  \<open>{credentialId, counter}\<close>.
\<close>

record provider =
  credentials :: "string \<rightharpoonup> FIDO2Credential"
  challenges :: "string \<rightharpoonup> (8 word list \<times> int)"

text \<open>An awaited call of the platform either resolves with a value or throws.\<close>

datatype 'a outcome = Resolved 'a | Rejected thrown

text \<open>The object \<open>JSON.parse\<close> makes of \<open>clientDataJSON\<close>.\<close>

record client_data =
  cd_type :: string
  cd_origin :: string

text \<open>
  What \<open>navigator.credentials.get\<close> resolves with. \<open>as_rawId\<close> is
  \<open>arrayBufferToBase64Url(credential.rawId)\<close>, the key of the credential map;
  \<open>as_clientData\<close> is the outcome of \<open>JSON.parse\<close> on the decoded client data.
\<close>

record assertion =
  as_rawId :: string
  as_clientData :: "client_data outcome"
  as_authenticatorData :: "8 word list"

text \<open>
  What \<open>navigator.credentials.create\<close> resolves with; \<open>at_publicKey\<close> is the encoded
  \<open>response.getPublicKey() || new ArrayBuffer(0)\<close>.
\<close>

record attestation =
  at_rawId :: string
  at_clientData :: "client_data outcome"
  at_publicKey :: string
  at_transports :: "string list option"

text \<open>
  Everything \<open>authenticate\<close> reads from outside the provider: \<open>isSupported()\<close>, the random
  challenge, the parts of \<open>generateChallengeId\<close> (\<open>Date.now()\<close> and
  \<open>Math.random().toString(36).substring(2)\<close>), the challenge's time stamp, the ceremony
  (building the request options and \<open>navigator.credentials.get\<close>, both after the challenge
  is stored and inside the \<open>try\<close>), the clock when the token is minted, and
  \<open>process.env.JWT_SECRET\<close>.
\<close>

record auth_env =
  ae_supported :: bool
  ae_challenge :: "8 word list"
  ae_idNow :: int
  ae_idRand :: string
  ae_stamp :: int
  ae_ceremony :: "assertion option outcome"
  ae_tokenNow :: int
  ae_secret :: "string option"

text \<open>
  The same for \<open>register\<close>. \<open>re_options\<close> is the rest of \<open>generateRegistrationOptions\<close>
  after the challenge is stored (encoding the user id, decoding the excluded ids), which
  runs before the \<open>try\<close>; \<open>re_created\<close> is \<open>new Date()\<close>.
\<close>

record reg_env =
  re_supported :: bool
  re_challenge :: "8 word list"
  re_stamp :: int
  re_options :: "unit outcome"
  re_ceremony :: "attestation option outcome"
  re_created :: int

definition message_of :: "thrown \<Rightarrow> string" where
  "message_of e = (case e of Error m \<Rightarrow> m | NonError \<Rightarrow> ''Unknown error'')"

definition generateChallengeId :: "int \<Rightarrow> string \<Rightarrow> string" where
  "generateChallengeId now rnd = ''challenge-'' @ toStringRadix 10 now @ ''-'' @ rnd"

text \<open>
  \<open>getCounterFromAuthData\<close>: bytes 33 to 36 as a big-endian unsigned 32-bit number.
  With fewer than 37 bytes the slice is shorter than four bytes and \<open>getUint32\<close> throws a
  \<open>RangeError\<close> (\<open>None\<close>).
\<close>

definition getCounterFromAuthData :: "8 word list \<Rightarrow> nat option" where
  "getCounterFromAuthData authData =
     (let counterBytes = take 4 (drop 33 authData)
      in if length counterBytes < 4 then None
         else Some (foldl (\<lambda>a b. a * 256 + unat b) 0 counterBytes))"

definition failure :: "string \<Rightarrow> AuthResult" where
  "failure e = \<lparr>ar_success = False, ar_token = None, ar_userId = None, ar_metadata = None,
                ar_error = Some e\<rparr>"

definition range_error :: thrown where
  "range_error = Error ''Offset is outside the bounds of the DataView''"

text \<open>
  \<open>FIDO2Provider.authenticate\<close>. The inner value is \<open>Inl\<close> for something thrown inside
  the \<open>try\<close> and \<open>Inr\<close> for a \<open>return\<close>; the \<open>catch\<close> turns the former into a failure.
  The challenge stored by \<open>generateAuthenticationOptions\<close> stays in the state on every
  path: no statement of \<open>authenticate\<close> removes it.
\<close>

definition authenticate :: "FIDO2Config \<Rightarrow> auth_env \<Rightarrow> provider \<Rightarrow> AuthResult \<times> provider" where
  "authenticate config env st =
     (if \<not> ae_supported env
      then (failure ''WebAuthn is not supported in this environment'', st)
      else
        let challengeId = generateChallengeId (ae_idNow env) (ae_idRand env);
            st1 = st\<lparr>challenges := (challenges st)(challengeId \<mapsto> (ae_challenge env, ae_stamp env))\<rparr>
        in case ae_ceremony env of
             Rejected e \<Rightarrow> (failure (''FIDO2 authentication failed: '' @ message_of e), st1)
           | Resolved None \<Rightarrow> (failure ''Authentication failed: no credential returned'', st1)
           | Resolved (Some credential) \<Rightarrow>
               let credentialId = as_rawId credential
               in case credentials st1 credentialId of
                    None \<Rightarrow> (failure ''Credential not found'', st1)
                  | Some storedCredential \<Rightarrow>
                      (case as_clientData credential of
                         Rejected e \<Rightarrow>
                           (failure (''FIDO2 authentication failed: '' @ message_of e), st1)
                       | Resolved clientData \<Rightarrow>
                           if cd_type clientData \<noteq> ''webauthn.get''
                           then (failure ''Invalid client data type'', st1)
                           else if cd_origin clientData \<noteq> origin config
                           then (failure ''Origin mismatch'', st1)
                           else
                             (case getCounterFromAuthData (as_authenticatorData credential) of
                                None \<Rightarrow>
                                  (failure (''FIDO2 authentication failed: '' @ message_of range_error),
                                   st1)
                              | Some counter \<Rightarrow>
                                  if counter \<le> c_counter storedCredential
                                  then (failure ''Invalid counter - possible cloned authenticator'', st1)
                                  else
                                    let st2 = st1\<lparr>credentials := (credentials st1)
                                                (credentialId \<mapsto> storedCredential\<lparr>c_counter := counter\<rparr>)\<rparr>;
                                        token = generateSessionToken (ae_secret env) (ae_tokenNow env)
                                                  (c_userId storedCredential)
                                    in (\<lparr>ar_success = True, ar_token = Some token,
                                         ar_userId = Some (c_userId storedCredential),
                                         ar_metadata = Some (credentialId, counter),
                                         ar_error = None\<rparr>, st2))))"

text \<open>
  The checks of \<open>FIDO2Provider.register\<close> inside the \<open>try\<close>: \<open>Inl\<close> is the message of
  what was thrown, \<open>Inr\<close> the credential to store.
\<close>

definition register_checks ::
  "FIDO2Config \<Rightarrow> reg_env \<Rightarrow> string \<Rightarrow> provider \<Rightarrow> string + FIDO2Credential" where
  "register_checks config env userId st =
     (case re_ceremony env of
        Rejected e \<Rightarrow> Inl (message_of e)
      | Resolved None \<Rightarrow> Inl ''Registration failed: no credential returned''
      | Resolved (Some credential) \<Rightarrow>
          (case challenges st userId of
             None \<Rightarrow> Inl ''Challenge not found''
           | Some storedChallenge \<Rightarrow>
               (case at_clientData credential of
                  Rejected e \<Rightarrow> Inl (message_of e)
                | Resolved clientData \<Rightarrow>
                    if cd_type clientData \<noteq> ''webauthn.create'' then Inl ''Invalid client data type''
                    else if cd_origin clientData \<noteq> origin config then Inl ''Origin mismatch''
                    else Inr \<lparr>c_id = at_rawId credential, c_publicKey = at_publicKey credential,
                              c_counter = 0, c_userId = userId,
                              c_transports = at_transports credential,
                              c_createdAt = re_created env\<rparr>)))"

definition fido2_register ::
  "FIDO2Config \<Rightarrow> reg_env \<Rightarrow> string \<Rightarrow> provider \<Rightarrow> (thrown + FIDO2Credential) \<times> provider" where
  "fido2_register config env userId st =
     (if \<not> re_supported env
      then (Inl (Error ''WebAuthn is not supported in this environment''), st)
      else
        let st1 = st\<lparr>challenges := (challenges st)(userId \<mapsto> (re_challenge env, re_stamp env))\<rparr>
        in case re_options env of
             Rejected e \<Rightarrow> (Inl e, st1)
           | Resolved u \<Rightarrow>
               (case register_checks config env userId st1 of
                  Inl m \<Rightarrow>
                    (Inl (Error (''FIDO2 registration failed: '' @ m)),
                     st1\<lparr>challenges := (challenges st1)(userId := None)\<rparr>)
                | Inr fido2Credential \<Rightarrow>
                    (Inr fido2Credential,
                     st1\<lparr>credentials := (credentials st1)(c_id fido2Credential \<mapsto> fido2Credential),
                         challenges := (challenges st1)(userId := None)\<rparr>)))"

section \<open>Concrete inputs\<close>

text \<open>The wallet identity of the registry's usage example, registered for user \<open>u1\<close>.\<close>

definition wallet_u1 :: NewIdentity where
  "wallet_u1 = \<lparr>n_type = wallet, n_userId = ''u1'', n_provider = ''metamask'',
                 n_data = [''address'' \<mapsto> VString ''0xabc''], n_verified = False\<rparr>"

text \<open>
  The registry after that one registration, made at clock reading \<open>1700000000000\<close> with
  random suffix \<open>k3j9x\<close>, and the identity it returned.
\<close>

definition demo_identity :: Identity where
  "demo_identity = \<lparr>i_id = ''1700000000000-k3j9x'', i_type = wallet, i_userId = ''u1'',
       i_provider = ''metamask'', i_data = [''address'' \<mapsto> VString ''0xabc''],
       i_verified = False, i_createdAt = 1700000000000, i_updatedAt = 1700000000000\<rparr>"

definition demo_registry :: storage where
  "demo_registry = snd (registry_register 1700000000000 ''k3j9x'' 1700000000000 wallet_u1 empty_storage)"

text \<open>A second registration input for the same user.\<close>

definition device_u1 :: NewIdentity where
  "device_u1 = \<lparr>n_type = device, n_userId = ''u1'', n_provider = ''mobile'',
                 n_data = Map.empty, n_verified = True\<rparr>"

text \<open>
  What a second registration returns when it reads the same clock value for the id and
  draws the same suffix, one millisecond later.
\<close>

definition demo_second :: Identity where
  "demo_second = \<lparr>i_id = ''1700000000000-k3j9x'', i_type = device, i_userId = ''u1'',
       i_provider = ''mobile'', i_data = Map.empty, i_verified = True,
       i_createdAt = 1700000000001, i_updatedAt = 1700000000001\<rparr>"

text \<open>A plugin whose \<open>destroy\<close> throws.\<close>

definition failing_plugin :: IPlugin where
  "failing_plugin = \<lparr>pl_name = ''fido2'', pl_version = ''0.1.0'', pl_type = ''fido2'',
                      pl_provider = True, pl_initialize = None,
                      pl_destroy = Some (Error ''device busy'')\<rparr>"

definition quiet_plugin :: IPlugin where
  "quiet_plugin = failing_plugin\<lparr>pl_destroy := None\<rparr>"

text \<open>
  A provider holding one credential with stored counter 5, and assertions for that
  credential: \<open>demo_assertion orig n\<close> comes from origin \<open>orig\<close> and carries counter \<open>n\<close>
  (below 256) in bytes 33 to 36 of its authenticator data.
\<close>

definition demo_config :: FIDO2Config where
  "demo_config = \<lparr>rpName = ''Test App'', rpId = ''localhost'',
                   origin = ''http://localhost:3000'', timeout = 60000\<rparr>"

definition demo_credential :: FIDO2Credential where
  "demo_credential = \<lparr>c_id = ''cred-1'', c_publicKey = ''key'', c_counter = 5,
                       c_userId = ''user-123'', c_transports = None,
                       c_createdAt = 1690000000000\<rparr>"

definition demo_provider :: provider where
  "demo_provider = \<lparr>credentials = [''cred-1'' \<mapsto> demo_credential], challenges = Map.empty\<rparr>"

definition demo_assertion :: "string \<Rightarrow> nat \<Rightarrow> assertion" where
  "demo_assertion orig n =
     \<lparr>as_rawId = ''cred-1'',
      as_clientData = Resolved \<lparr>cd_type = ''webauthn.get'', cd_origin = orig\<rparr>,
      as_authenticatorData = replicate 33 0 @ [0, 0, 0, of_nat n]\<rparr>"

definition demo_env :: "assertion \<Rightarrow> auth_env" where
  "demo_env a = \<lparr>ae_supported = True, ae_challenge = replicate 32 7,
                  ae_idNow = 1700000000000, ae_idRand = ''k3j9x'', ae_stamp = 1700000000000,
                  ae_ceremony = Resolved (Some a), ae_tokenNow = 1700000000000,
                  ae_secret = None\<rparr>"

section \<open>Properties of the string and number helpers\<close>
declare digitsRadix.simps [simp del]

lemma split_on_nonempty: "split_on sep s \<noteq> []"
  by (induction s) auto

lemma split_on_no_sep: "sep \<notin> set s \<Longrightarrow> split_on sep s = [s]"
  by (induction s) auto

lemma split_on_append: "sep \<notin> set a \<Longrightarrow> split_on sep (a @ sep # b) = a # split_on sep b"
  by (induction a) auto

lemma length_split_on: "length (split_on sep s) = Suc (length (filter (\<lambda>c. c = sep) s))"
proof (induction s)
  case Nil
  show ?case by simp
next
  case (Cons c cs)
  have "length (tl (split_on sep cs)) = length (filter (\<lambda>c. c = sep) cs)"
    using Cons.IH by simp
  then show ?case using Cons.IH by simp
qed

lemma digit_chars_nth_mem: "0 \<le> k \<Longrightarrow> k < 36 \<Longrightarrow> digit_chars ! nat k \<in> set digit_chars"
  by (rule nth_mem) (simp add: digit_chars_def)

lemma digitsRadix_set:
  "2 \<le> b \<Longrightarrow> b \<le> 36 \<Longrightarrow> 0 \<le> n \<Longrightarrow> set (digitsRadix b n) \<subseteq> set digit_chars"
proof (induction b n rule: digitsRadix.induct)
  case (1 b n)
  show ?case
  proof (cases "n < b")
    case True
    then have "digitsRadix b n = [digit_chars ! nat n]"
      by (simp add: digitsRadix.simps)
    moreover have "digit_chars ! nat n \<in> set digit_chars"
      using True "1.prems" by (intro digit_chars_nth_mem) auto
    ultimately show ?thesis by simp
  next
    case False
    then have eq: "digitsRadix b n = digitsRadix b (n div b) @ [digit_chars ! nat (n mod b)]"
      using "1.prems" by (subst digitsRadix.simps) simp
    have rest: "set (digitsRadix b (n div b)) \<subseteq> set digit_chars"
      using "1.IH" False "1.prems" by (simp add: pos_imp_zdiv_nonneg_iff)
    have bpos: "0 < b"
      using "1.prems" by simp
    have "n mod b < b"
      using bpos by (rule pos_mod_bound)
    with "1.prems" have "n mod b < 36"
      by linarith
    moreover have "0 \<le> n mod b"
      using bpos by simp
    ultimately have "digit_chars ! nat (n mod b) \<in> set digit_chars"
      by (intro digit_chars_nth_mem)
    then show ?thesis using eq rest by simp
  qed
qed

lemma digitsRadix_nonempty: "digitsRadix b n \<noteq> []"
  by (subst digitsRadix.simps) simp

lemma colon_not_digit: "CHR '':'' \<notin> set digit_chars"
  by (simp add: digit_chars_def)

lemma dash_not_digit: "CHR ''-'' \<notin> set digit_chars"
  by (simp add: digit_chars_def)

lemma decimal_digit_nth:
  assumes "0 \<le> k" "k < 10"
  shows "is_digit (digit_chars ! nat k) \<and> digit_val (digit_chars ! nat k) = k"
proof -
  have "k = 0 \<or> k = 1 \<or> k = 2 \<or> k = 3 \<or> k = 4 \<or> k = 5 \<or> k = 6 \<or> k = 7 \<or> k = 8 \<or> k = 9"
    using assms by arith
  then show ?thesis
    by (elim disjE) (simp_all add: digit_chars_def is_digit_def digit_val_def eval_nat_numeral)
qed

lemma digitsRadix10:
  "0 \<le> n \<Longrightarrow> list_all is_digit (digitsRadix 10 n) \<and>
     foldl (\<lambda>a c. a * 10 + digit_val c) a0 (digitsRadix 10 n) = a0 * 10 ^ length (digitsRadix 10 n) + n"
proof (induction "10::int" n arbitrary: a0 rule: digitsRadix.induct)
  case (1 n)
  show ?case
  proof (cases "n < 10")
    case True
    then have "digitsRadix 10 n = [digit_chars ! nat n]"
      by (simp add: digitsRadix.simps)
    then show ?thesis using decimal_digit_nth [of n] True "1.prems" by simp
  next
    case False
    then have eq: "digitsRadix 10 n = digitsRadix 10 (n div 10) @ [digit_chars ! nat (n mod 10)]"
      by (subst digitsRadix.simps) simp
    have ih: "list_all is_digit (digitsRadix 10 (n div 10)) \<and>
       foldl (\<lambda>a c. a * 10 + digit_val c) a0 (digitsRadix 10 (n div 10))
         = a0 * 10 ^ length (digitsRadix 10 (n div 10)) + n div 10"
      using "1.hyps" [of a0] False "1.prems" by simp
    have d: "is_digit (digit_chars ! nat (n mod 10)) \<and> digit_val (digit_chars ! nat (n mod 10)) = n mod 10"
      by (rule decimal_digit_nth) simp_all
    show ?thesis using ih d by (simp add: eq algebra_simps)
  qed
qed

lemma takeWhile_all: "list_all P xs \<Longrightarrow> takeWhile P xs = xs"
  by (induction xs) auto

lemma digit_not_ws: "is_digit c \<Longrightarrow> \<not> is_ws c \<and> c \<noteq> CHR ''-'' \<and> c \<noteq> CHR ''+''"
  by (auto simp: is_digit_def is_ws_def)

lemma parseInt_digits:
  assumes "0 \<le> n"
  shows "parseInt (digitsRadix 10 n) = Some n" and "parseInt (CHR ''-'' # digitsRadix 10 n) = Some (- n)"
proof -
  obtain c cs where ds: "digitsRadix 10 n = c # cs"
    using digitsRadix_nonempty [of 10 n] by (cases "digitsRadix 10 n") auto
  have all: "list_all is_digit (c # cs)"
    and val: "foldl (\<lambda>a c. a * 10 + digit_val c) 0 (c # cs) = n"
    using digitsRadix10 [OF assms, of 0] ds by simp_all
  have c: "\<not> is_ws c" "c \<noteq> CHR ''-''" "c \<noteq> CHR ''+''"
    using all digit_not_ws [of c] by simp_all
  have tw: "takeWhile is_digit (c # cs) = c # cs"
    using all by (rule takeWhile_all)
  show "parseInt (digitsRadix 10 n) = Some n"
    unfolding ds parseInt_def using c tw val by simp
  have nws: "\<not> is_ws CHR ''-''" by (simp add: is_ws_def)
  show "parseInt (CHR ''-'' # digitsRadix 10 n) = Some (- n)"
    unfolding ds parseInt_def using nws tw val by simp
qed

lemma parseInt_toString: "parseInt (toStringRadix 10 i) = Some i"
  using parseInt_digits [of i] parseInt_digits [of "- i"] by (simp add: toStringRadix_def)

lemma toString10_no_colon: "CHR '':'' \<notin> set (toStringRadix 10 i)"
  using digitsRadix_set [of 10 i] digitsRadix_set [of 10 "- i"] colon_not_digit
  by (auto simp: toStringRadix_def)

lemma signToken_no_colon: "CHR '':'' \<notin> set (signToken env userId timestamp)"
  using digitsRadix_set [of 36 "\<bar>sint (foldl hash_step 0 (userId @ '':'' @ timestamp @ '':'' @ jwt_secret env))\<bar>"]
    colon_not_digit
  by (auto simp: signToken_def toStringRadix_def Let_def)

lemma hex_byte_set: "set (hex_byte b) \<subseteq> set digit_chars"
proof -
  have "unat b < 2 ^ LENGTH(8)" by (rule unsigned_less)
  then have "unat b < 256" by simp
  then have "unat b div 16 < length digit_chars" "unat b mod 16 < length digit_chars"
    by (simp_all add: digit_chars_def)
  then have "digit_chars ! (unat b div 16) \<in> set digit_chars"
    "digit_chars ! (unat b mod 16) \<in> set digit_chars"
    by (simp_all only: nth_mem)
  then show ?thesis
    by (simp add: hex_byte_def)
qed

lemma email_signToken_no_colon: "CHR '':'' \<notin> set (email_signToken sha256 env userId timestamp)"
  using hex_byte_set colon_not_digit
  by (fastforce simp: email_signToken_def digest_hex_def Let_def)


lemma split_minted:
  assumes "CHR '':'' \<notin> set userId" and "\<And>u t. CHR '':'' \<notin> set (sign u t)"
  shows "split_on CHR '':'' (mint_token sign t userId)
           = [userId, toStringRadix 10 t, sign userId (toStringRadix 10 t)]"
proof -
  have "split_on CHR '':'' (userId @ CHR '':'' # toStringRadix 10 t @ CHR '':'' # sign userId (toStringRadix 10 t))
          = userId # split_on CHR '':'' (toStringRadix 10 t @ CHR '':'' # sign userId (toStringRadix 10 t))"
    using assms(1) by (rule split_on_append)
  also have "split_on CHR '':'' (toStringRadix 10 t @ CHR '':'' # sign userId (toStringRadix 10 t))
          = toStringRadix 10 t # split_on CHR '':'' (sign userId (toStringRadix 10 t))"
    using toString10_no_colon by (rule split_on_append)
  also have "split_on CHR '':'' (sign userId (toStringRadix 10 t)) = [sign userId (toStringRadix 10 t)]"
    using assms(2) by (rule split_on_no_sep)
  finally show ?thesis by (simp add: mint_token_def Let_def)
qed

lemma verify_minted:
  assumes "CHR '':'' \<notin> set userId" and "\<And>u t. CHR '':'' \<notin> set (sign u t)"
    and "\<bar>t + 86400000\<bar> \<le> 8640000000000000"
  shows "verify_token sign now (mint_token sign t userId) =
           (if now > t + 86400000 then invalid_result ''Token expired''
            else \<lparr>vr_valid = True, vr_userId = Some userId,
                   vr_expiresAt = Some (Date (t + 86400000)), vr_error = None\<rparr>)"
  using assms(3)
  by (simp add: verify_token_def split_minted [OF assms(1,2)] parseInt_toString
      js_add_def newDate_def getTime_def js_gt_def)

lemma split_minted_long:
  assumes "CHR '':'' \<in> set userId"
  shows "3 < length (split_on CHR '':'' (mint_token sign t userId))"
proof -
  have "filter (\<lambda>c. c = CHR '':'') userId \<noteq> []"
    using assms by (simp add: filter_empty_conv)
  then have "0 < length (filter (\<lambda>c. c = CHR '':'') userId)" by simp
  then show ?thesis
    by (simp add: length_split_on mint_token_def Let_def)
qed

lemma verify_minted_colon:
  assumes "CHR '':'' \<in> set userId"
  shows "verify_token sign now (mint_token sign t userId) = invalid_result ''Invalid token format''"
  using split_minted_long [OF assms, of sign t] by (simp add: verify_token_def)


lemma expired_iff:
  "js_gt now (getTime (newDate (js_add v 86400000)))
     = (\<exists>T. v = Some T \<and> \<bar>T + 86400000\<bar> \<le> 8640000000000000 \<and> T + 86400000 < now)"
  by (cases v) (simp_all add: js_gt_def getTime_def newDate_def js_add_def)

lemma verify_token_classes:
  "(let parts = split_on CHR '':'' token; r = verify_token sign now token
    in (vr_valid r = (vr_error r = None))
       \<and> (\<not> vr_valid r \<longrightarrow> vr_error r \<in> {Some ''Invalid token format'',
             Some ''Invalid token signature'', Some ''Token expired''})
       \<and> ((vr_error r = Some ''Invalid token format'') = (length parts \<noteq> 3))
       \<and> ((vr_error r = Some ''Invalid token signature'')
            = (length parts = 3 \<and> parts ! 2 \<noteq> sign (parts ! 0) (parts ! 1)))
       \<and> ((vr_error r = Some ''Token expired'')
            = (length parts = 3 \<and> parts ! 2 = sign (parts ! 0) (parts ! 1)
               \<and> (\<exists>T. parseInt (parts ! 1) = Some T \<and> \<bar>T + 86400000\<bar> \<le> 8640000000000000
                        \<and> T + 86400000 < now))))"
  unfolding expired_iff [symmetric]
  by (simp add: verify_token_def invalid_result_def Let_def)

section \<open>Session tokens: the claims\<close>

text \<open>
  C10. A subject (userId) that contains a colon makes the minted token split into more
  than three fields, so the provider's own \<open>verify\<close> rejects it as malformed: the minter
  does not enforce the restriction on the subject, and minting then verifying fails. This
  holds for the FIDO2 provider and for the email/password provider.
\<close>

theorem C10_colon_in_subject:
  "CHR '':'' \<in> set userId \<Longrightarrow>
     3 < length (split_on CHR '':'' (generateSessionToken env t userId))
     \<and> verify env now (generateSessionToken env t userId) = invalid_result ''Invalid token format''
     \<and> 3 < length (split_on CHR '':'' (email_generateToken sha256 env t userId))
     \<and> email_verify sha256 env now (email_generateToken sha256 env t userId)
         = invalid_result ''Invalid token format''"
  by (simp add: generateSessionToken_def verify_def email_generateToken_def email_verify_def
      split_minted_long verify_minted_colon)

theorem C10_colon_in_subject_witness:
  "CHR '':'' \<in> set ''org:alice''
   \<and> verify None 1700000000001 (generateSessionToken None 1700000000000 ''org:alice'')
       = invalid_result ''Invalid token format''"
  using C10_colon_in_subject [of "''org:alice''" None 1700000000000 1700000000001]
  by simp

lemma sign_demo: "signToken None ''user-123'' ''1700000000000'' = ''ujk4wb''"
  by (simp add: signToken_def jwt_secret_def hash_step_def toStringRadix_def
      digitsRadix.simps digit_chars_def)

lemma timestamp_demo: "toStringRadix 10 1700000000000 = ''1700000000000''"
  by (simp add: toStringRadix_def digitsRadix.simps digit_chars_def)

lemma minted_demo:
  "generateSessionToken None 1700000000000 ''user-123'' = ''user-123:1700000000000:ujk4wb''"
  by (simp add: generateSessionToken_def mint_token_def timestamp_demo sign_demo)

text \<open>
  C5. Whatever the input string, a rejection by \<open>verify\<close> carries exactly one of three
  pairwise different reasons, and which one is fixed by the token: \<open>'Invalid token format'\<close>
  exactly when the number of colon-separated fields is not three, \<open>'Invalid token signature'\<close>
  exactly when there are three fields and the third is not the keyed hash of the first
  two, \<open>'Token expired'\<close> exactly when the token has three fields, is correctly signed and
  its validity window has passed. The three conditions exclude each other, and the
  catch-all reason of the \<open>catch\<close> branch never occurs. Both providers.
\<close>

theorem C5_rejection_reasons:
  "(let parts = split_on CHR '':'' token; r = verify env now token
    in (vr_valid r = (vr_error r = None))
       \<and> (\<not> vr_valid r \<longrightarrow> vr_error r \<in> {Some ''Invalid token format'',
             Some ''Invalid token signature'', Some ''Token expired''})
       \<and> ((vr_error r = Some ''Invalid token format'') = (length parts \<noteq> 3))
       \<and> ((vr_error r = Some ''Invalid token signature'')
            = (length parts = 3 \<and> parts ! 2 \<noteq> signToken env (parts ! 0) (parts ! 1)))
       \<and> ((vr_error r = Some ''Token expired'')
            = (length parts = 3 \<and> parts ! 2 = signToken env (parts ! 0) (parts ! 1)
               \<and> (\<exists>T. parseInt (parts ! 1) = Some T \<and> \<bar>T + 86400000\<bar> \<le> 8640000000000000
                        \<and> T + 86400000 < now))))
   \<and> (let parts = split_on CHR '':'' token; r = email_verify sha256 env now token
    in (vr_valid r = (vr_error r = None))
       \<and> (\<not> vr_valid r \<longrightarrow> vr_error r \<in> {Some ''Invalid token format'',
             Some ''Invalid token signature'', Some ''Token expired''})
       \<and> ((vr_error r = Some ''Invalid token format'') = (length parts \<noteq> 3))
       \<and> ((vr_error r = Some ''Invalid token signature'')
            = (length parts = 3 \<and> parts ! 2 \<noteq> email_signToken sha256 env (parts ! 0) (parts ! 1)))
       \<and> ((vr_error r = Some ''Token expired'')
            = (length parts = 3 \<and> parts ! 2 = email_signToken sha256 env (parts ! 0) (parts ! 1)
               \<and> (\<exists>T. parseInt (parts ! 1) = Some T \<and> \<bar>T + 86400000\<bar> \<le> 8640000000000000
                        \<and> T + 86400000 < now))))
   \<and> distinct [''Invalid token format'', ''Invalid token signature'', ''Token expired'']"
  unfolding verify_def email_verify_def
  by (intro conjI verify_token_classes) simp

theorem C5_rejection_reasons_witness:
  "\<not> vr_valid (verify None 1700000000001 ''invalid-token'')
   \<and> vr_error (verify None 1700000000001 ''invalid-token'') = Some ''Invalid token format''"
proof -
  let ?r = "verify None 1700000000001 ''invalid-token''"
  have len: "length (split_on CHR '':'' ''invalid-token'') \<noteq> 3"
    by simp
  have v: "vr_valid ?r = (vr_error ?r = None)"
    and e: "(vr_error ?r = Some ''Invalid token format'')
              = (length (split_on CHR '':'' ''invalid-token'') \<noteq> 3)"
    using C5_rejection_reasons [of "''invalid-token''" None 1700000000001]
    unfolding Let_def by blast+
  from e len have "vr_error ?r = Some ''Invalid token format''"
    by blast
  with v show ?thesis by simp
qed

text \<open>
  C4, as the code has it. For a subject without a colon, a token minted at time \<open>t\<close>
  (with \<open>t + 24h\<close> inside the range of JavaScript dates) is accepted, with the same
  subject and \<open>expiresAt = t + 24h\<close>, whenever \<open>verify\<close> runs at or before \<open>t + 24h\<close>, and
  rejected as expired whenever it runs strictly after \<open>t + 24h\<close>. Both providers.
\<close>

theorem C4_token_window:
  assumes "CHR '':'' \<notin> set userId" and "\<bar>t + 86400000\<bar> \<le> 8640000000000000"
  shows "(now \<le> t + 86400000 \<longrightarrow>
            verify env now (generateSessionToken env t userId)
              = \<lparr>vr_valid = True, vr_userId = Some userId,
                  vr_expiresAt = Some (Date (t + 86400000)), vr_error = None\<rparr>
          \<and> email_verify sha256 env now (email_generateToken sha256 env t userId)
              = \<lparr>vr_valid = True, vr_userId = Some userId,
                  vr_expiresAt = Some (Date (t + 86400000)), vr_error = None\<rparr>)
       \<and> (t + 86400000 < now \<longrightarrow>
            verify env now (generateSessionToken env t userId) = invalid_result ''Token expired''
          \<and> email_verify sha256 env now (email_generateToken sha256 env t userId)
              = invalid_result ''Token expired'')"
  using verify_minted [where sign = "signToken env" and now = now,
      OF assms(1) signToken_no_colon assms(2)]
    verify_minted [where sign = "email_signToken sha256 env" and now = now,
      OF assms(1) email_signToken_no_colon assms(2)]
  by (simp add: verify_def generateSessionToken_def email_verify_def email_generateToken_def)

theorem C4_token_window_witness:
  "CHR '':'' \<notin> set ''user-123'' \<and> \<bar>(1700000000000::int) + 86400000\<bar> \<le> 8640000000000000
   \<and> verify None 1700086400000 (generateSessionToken None 1700000000000 ''user-123'')
       = \<lparr>vr_valid = True, vr_userId = Some ''user-123'',
           vr_expiresAt = Some (Date 1700086400000), vr_error = None\<rparr>
   \<and> verify None 1700086400001 (generateSessionToken None 1700000000000 ''user-123'')
       = invalid_result ''Token expired''"
proof -
  have h1: "CHR '':'' \<notin> set ''user-123''" by simp
  have h2: "\<bar>(1700000000000::int) + 86400000\<bar> \<le> 8640000000000000" by simp
  show ?thesis
    using h1 h2 C4_token_window [OF h1 h2, of 1700086400000 None]
      C4_token_window [OF h1 h2, of 1700086400001 None]
    by simp
qed

text \<open>
  C4 as stated puts the boundary on the other side: a token verified exactly at
  \<open>t + 24h\<close> would be rejected. The comparison is \<open>Date.now() > expiresAt.getTime()\<close>, so
  at the boundary the token is still accepted.
\<close>

theorem C4_boundary_counterexample:
  "CHR '':'' \<notin> set ''user-123'' \<and> (1700000000000::int) + 24 * 60 * 60 * 1000 \<le> 1700086400000
   \<and> vr_valid (verify None 1700086400000 (generateSessionToken None 1700000000000 ''user-123''))"
proof -
  have h1: "CHR '':'' \<notin> set ''user-123''" by simp
  have h2: "\<bar>(1700000000000::int) + 86400000\<bar> \<le> 8640000000000000" by simp
  have "verify_token (signToken None) 1700086400000 (mint_token (signToken None) 1700000000000 ''user-123'')
      = \<lparr>vr_valid = True, vr_userId = Some ''user-123'',
           vr_expiresAt = Some (Date 1700086400000), vr_error = None\<rparr>"
    using verify_minted [where sign = "signToken None" and now = 1700086400000,
        OF h1 signToken_no_colon h2]
    by simp
  then show ?thesis
    using h1 by (simp add: verify_def generateSessionToken_def)
qed

section \<open>Identity registry: the claims\<close>

lemma split_last_sep:
  assumes "sep \<notin> set r" "sep \<notin> set r'" "a @ sep # r = a' @ sep # r'"
  shows "a = a' \<and> r = r'"
proof -
  have eq: "rev r @ sep # rev a = rev r' @ sep # rev a'"
    using arg_cong [OF assms(3), of rev] by simp
  have "takeWhile (\<lambda>c. c \<noteq> sep) (rev r @ sep # rev a) = rev r"
    using assms(1) by (subst takeWhile_append2) auto
  moreover have "takeWhile (\<lambda>c. c \<noteq> sep) (rev r' @ sep # rev a') = rev r'"
    using assms(2) by (subst takeWhile_append2) auto
  ultimately have r: "r = r'"
    using eq by simp
  with assms(3) show ?thesis by simp
qed

lemma toString10_inject:
  assumes "toStringRadix 10 i = toStringRadix 10 j"
  shows "i = j"
proof -
  have "parseInt (toStringRadix 10 i) = parseInt (toStringRadix 10 j)"
    using assms by (rule arg_cong)
  then show ?thesis
    by (simp only: parseInt_toString option.inject)
qed

lemma generateId_inject:
  assumes "set rnd \<subseteq> set digit_chars" "set rnd' \<subseteq> set digit_chars"
  shows "(generateId tnow rnd = generateId tnow' rnd') = (tnow = tnow' \<and> rnd = rnd')"
proof
  assume "generateId tnow rnd = generateId tnow' rnd'"
  then have "toStringRadix 10 tnow @ CHR ''-'' # rnd = toStringRadix 10 tnow' @ CHR ''-'' # rnd'"
    by (simp add: generateId_def)
  moreover have "CHR ''-'' \<notin> set rnd" "CHR ''-'' \<notin> set rnd'"
    using assms dash_not_digit by auto
  ultimately have "toStringRadix 10 tnow = toStringRadix 10 tnow' \<and> rnd = rnd'"
    by (intro split_last_sep)
  then show "tnow = tnow' \<and> rnd = rnd'"
    using toString10_inject by blast
next
  assume "tnow = tnow' \<and> rnd = rnd'"
  then show "generateId tnow rnd = generateId tnow' rnd'" by simp
qed

lemma demo_id: "generateId 1700000000000 ''k3j9x'' = ''1700000000000-k3j9x''"
  by (simp add: generateId_def timestamp_demo)

lemma demo_register:
  "registry_register 1700000000000 ''k3j9x'' 1700000000000 wallet_u1 empty_storage
     = (Inr demo_identity,
        [''identity:1700000000000-k3j9x'' \<mapsto> Row demo_identity,
         ''identity:user:u1'' \<mapsto> Index [demo_identity]])"
  by (simp add: registry_register_def demo_id wallet_u1_def demo_identity_def findByUser_def
      empty_storage_def row_key_def user_key_def storagePrefix_def Let_def)

lemma demo_registry_eq:
  "demo_registry = [''identity:1700000000000-k3j9x'' \<mapsto> Row demo_identity,
                    ''identity:user:u1'' \<mapsto> Index [demo_identity]]"
  by (simp add: demo_registry_def demo_register)

lemma demo_get:
  "registry_get demo_registry ''1700000000000-k3j9x'' = Some (Row demo_identity)"
  "registry_get demo_registry ''non-existent'' = None"
  "registry_get demo_registry ''user:u1'' = Some (Index [demo_identity])"
  by (simp_all add: demo_registry_eq registry_get_def row_key_def storagePrefix_def)

lemma demo_findByUser: "findByUser demo_registry ''u1'' = Index [demo_identity]"
  by (simp add: demo_registry_eq findByUser_def user_key_def storagePrefix_def)

text \<open>
  Where the registry does what its tests say. An id is free when its key holds nothing,
  and names a row when its key holds an identity.
\<close>

lemma register_returns:
  "registry_register tnow rnd date identity st = (Inr r, st') \<Longrightarrow>
     i_id r = generateId tnow rnd \<and> i_createdAt r = date \<and> i_updatedAt r = date"
  by (auto simp: registry_register_def Let_def split: stored.splits)

lemma update_free_key:
  "registry_get st ident = None \<Longrightarrow>
     registry_update date ident data st = (Inl (Error (''Identity '' @ ident @ '' not found'')), st)"
  by (simp add: registry_update_def)

lemma update_row:
  "registry_get st ident = Some (Row existing) \<Longrightarrow>
     \<exists>updated. registry_update date ident data st
                  = (Inr (Row updated), st(row_key ident \<mapsto> Row updated))
       \<and> i_id updated = i_id existing \<and> i_createdAt updated = i_createdAt existing
       \<and> i_updatedAt updated = date"
  by (simp add: registry_update_def Let_def)

lemma delete_free_key:
  "registry_get st ident = None \<Longrightarrow> registry_delete ident st = (Inr False, st)"
  by (simp add: registry_delete_def)

lemma delete_row:
  "registry_get st ident = Some (Row r) \<Longrightarrow>
   findByUser (st(row_key ident := None)) (i_userId r) = Index userIdentities \<Longrightarrow>
     registry_delete ident st
       = (Inr True,
          st(row_key ident := None,
             user_key (i_userId r) \<mapsto> Index (filter (\<lambda>i. i_id i \<noteq> ident) userIdentities)))"
  by (simp add: registry_delete_def userId_text_def Let_def)

text \<open>
  C9 says that the id \<open>register\<close> returns differs from the id of every identity
  registered before (the registry's test \<open>should generate unique IDs for different
  identities\<close> says the same). \<open>generateId\<close> joins the clock reading and a random suffix
  and \<open>register\<close> never looks at the ids already stored: a second registration that reads
  the same clock value and draws the same suffix returns the id of the first, replaces the
  first identity's row, and leaves two index entries with one id.
\<close>

theorem C9_same_draw_same_id:
  "fst (registry_register 1700000000000 ''k3j9x'' 1700000000000 wallet_u1 empty_storage)
     = Inr demo_identity
   \<and> registry_get demo_registry (i_id demo_identity) = Some (Row demo_identity)
   \<and> fst (registry_register 1700000000000 ''k3j9x'' 1700000000001 device_u1 demo_registry)
       = Inr demo_second
   \<and> i_id demo_second = i_id demo_identity
   \<and> registry_get
        (snd (registry_register 1700000000000 ''k3j9x'' 1700000000001 device_u1 demo_registry))
        (i_id demo_identity) = Some (Row demo_second)
   \<and> findByUser
        (snd (registry_register 1700000000000 ''k3j9x'' 1700000000001 device_u1 demo_registry))
        ''u1'' = Index [demo_identity, demo_second]"
proof -
  have second: "registry_register 1700000000000 ''k3j9x'' 1700000000001 device_u1 demo_registry
     = (Inr demo_second,
        demo_registry(''identity:1700000000000-k3j9x'' \<mapsto> Row demo_second,
                      ''identity:user:u1'' \<mapsto> Index [demo_identity, demo_second]))"
    by (simp add: registry_register_def demo_id device_u1_def demo_second_def findByUser_def
        demo_registry_eq row_key_def user_key_def storagePrefix_def Let_def)
  have ids: "i_id demo_identity = ''1700000000000-k3j9x''" "i_id demo_second = ''1700000000000-k3j9x''"
    by (simp_all add: demo_identity_def demo_second_def)
  show ?thesis
    unfolding second ids
    by (simp add: demo_register demo_get)
       (simp add: registry_get_def findByUser_def row_key_def user_key_def storagePrefix_def)
qed

text \<open>
  C6 says that \<open>update\<close> on an id absent from the registry fails with the not-found error
  and changes nothing (the registry's test \<open>should throw error for non-existent identity\<close>
  says the same). Rows and user indexes share one key space: once user \<open>u1\<close> has an
  identity, the id \<open>user:u1\<close>, which no identity has, addresses \<open>u1\<close>'s index. \<open>update\<close> finds
  the array there, does not throw, and writes an object in place of the index; the next
  registration for \<open>u1\<close> then fails on that object after writing its row.
\<close>

theorem C6_update_of_index_key:
  "registry_get demo_registry ''user:u1'' = Some (Index [demo_identity])
   \<and> fst (registry_update 1700000000500 ''user:u1'' (no_fields\<lparr>p_verified := Some True\<rparr>)
          demo_registry)
       = Inr (Spread [demo_identity]
               (no_fields\<lparr>p_verified := Some True, p_updatedAt := Some 1700000000500\<rparr>))
   \<and> findByUser
        (snd (registry_update 1700000000500 ''user:u1'' (no_fields\<lparr>p_verified := Some True\<rparr>)
                demo_registry)) ''u1''
       = Spread [demo_identity]
           (no_fields\<lparr>p_verified := Some True, p_updatedAt := Some 1700000000500\<rparr>)
   \<and> fst (registry_register 1700000000600 ''m2p8q'' 1700000000600 device_u1
          (snd (registry_update 1700000000500 ''user:u1'' (no_fields\<lparr>p_verified := Some True\<rparr>)
                  demo_registry)))
       = Inl (Error ''userIdentities is not iterable'')"
proof -
  have upd: "registry_update 1700000000500 ''user:u1'' (no_fields\<lparr>p_verified := Some True\<rparr>)
               demo_registry
     = (Inr (Spread [demo_identity]
               (no_fields\<lparr>p_verified := Some True, p_updatedAt := Some 1700000000500\<rparr>)),
        demo_registry(''identity:user:u1'' \<mapsto> Spread [demo_identity]
               (no_fields\<lparr>p_verified := Some True, p_updatedAt := Some 1700000000500\<rparr>)))"
    by (simp add: registry_update_def demo_get no_fields_def row_key_def storagePrefix_def
        Let_def)
  show ?thesis
    unfolding upd
    by (simp add: demo_get)
       (simp add: findByUser_def registry_register_def device_u1_def user_key_def row_key_def
        storagePrefix_def generateId_def Let_def)
qed

text \<open>
  C7 says that \<open>delete\<close> on an id absent from the registry returns \<open>false\<close> (the registry's
  test \<open>should return false for non-existent identity\<close> says the same). For the id
  \<open>user:u1\<close>, which no identity has, \<open>delete\<close> finds \<open>u1\<close>'s index array, returns \<open>true\<close>,
  deletes the index and writes an empty index for the user \<open>undefined\<close>; the identity of
  \<open>u1\<close> keeps its row and is gone from \<open>findByUser\<close>.
\<close>

theorem C7_delete_of_index_key:
  "registry_get demo_registry ''user:u1'' = Some (Index [demo_identity])
   \<and> fst (registry_delete ''user:u1'' demo_registry) = Inr True
   \<and> snd (registry_delete ''user:u1'' demo_registry) ''identity:user:u1'' = None
   \<and> snd (registry_delete ''user:u1'' demo_registry) ''identity:user:undefined'' = Some (Index [])
   \<and> findByUser (snd (registry_delete ''user:u1'' demo_registry)) ''u1'' = Index []
   \<and> registry_get (snd (registry_delete ''user:u1'' demo_registry)) ''1700000000000-k3j9x''
       = Some (Row demo_identity)"
proof -
  have del: "registry_delete ''user:u1'' demo_registry
     = (Inr True, demo_registry(''identity:user:u1'' := None,
                                ''identity:user:undefined'' \<mapsto> Index []))"
    by (simp add: registry_delete_def demo_get userId_text_def Let_def)
       (simp add: findByUser_def userId_text_def user_key_def row_key_def storagePrefix_def
        demo_registry_eq)
  show ?thesis
    unfolding del
    by (simp add: demo_get)
       (simp add: findByUser_def registry_get_def user_key_def row_key_def storagePrefix_def
        demo_registry_eq)
qed

lemma demo_update:
  "registry_update 1700000000500 ''1700000000000-k3j9x'' (no_fields\<lparr>p_verified := Some True\<rparr>)
     demo_registry
     = (Inr (Row (demo_identity\<lparr>i_verified := True, i_updatedAt := 1700000000500\<rparr>)),
        demo_registry(''identity:1700000000000-k3j9x''
           \<mapsto> Row (demo_identity\<lparr>i_verified := True, i_updatedAt := 1700000000500\<rparr>)))"
  by (simp add: registry_update_def demo_get no_fields_def or_else_def row_key_def
      storagePrefix_def demo_identity_def Let_def)

text \<open>
  C3 says that after any sequence of registry operations \<open>findByUser\<close> returns the
  identities of the primary rows with their current field values. \<open>update\<close> writes the row
  only, so after \<open>register\<close> then \<open>verifyIdentity\<close> the row is verified while the entry that
  \<open>findByUser\<close> returns is the copy made at registration, and \<open>hasVerifiedIdentity\<close>, which
  reads the index, answers \<open>false\<close>.
\<close>

theorem C3_stale_index_after_verifyIdentity:
  "fst (verifyIdentity 1700000000500 ''1700000000000-k3j9x'' demo_registry) = Inr (True, None)
   \<and> registry_get (snd (verifyIdentity 1700000000500 ''1700000000000-k3j9x'' demo_registry))
        ''1700000000000-k3j9x''
       = Some (Row (demo_identity\<lparr>i_verified := True, i_updatedAt := 1700000000500\<rparr>))
   \<and> findByUser (snd (verifyIdentity 1700000000500 ''1700000000000-k3j9x'' demo_registry)) ''u1''
       = Index [demo_identity]
   \<and> i_verified demo_identity = False
   \<and> hasVerifiedIdentity
        (snd (verifyIdentity 1700000000500 ''1700000000000-k3j9x'' demo_registry)) ''u1'' wallet
       = Inr False"
  by (simp add: verifyIdentity_def demo_get demo_update)
     (simp add: registry_get_def findByUser_def hasVerifiedIdentity_def findByType_def
      row_key_def user_key_def storagePrefix_def demo_registry_eq demo_identity_def)

section \<open>Plugin loader: the claim\<close>

lemma map_of_filter_key: "map_of (filter (\<lambda>(k, v). k \<noteq> name) ps) name = None"
  by (induction ps) auto

lemma loader_demo:
  "loader_get [(''fido2'', failing_plugin)] ''fido2'' = Some failing_plugin"
  "loader_get [(''fido2'', quiet_plugin)] ''fido2'' = Some quiet_plugin"
  "loader_get [(''fido2'', quiet_plugin)] ''wallet'' = None"
  "pl_destroy failing_plugin = Some (Error ''device busy'')"
  "pl_destroy quiet_plugin = None"
  by (simp_all add: loader_get_def failing_plugin_def quiet_plugin_def)

text \<open>
  C8, as the code has it. \<open>unregister\<close> of an unknown name throws the not-found error and
  leaves the table unchanged. For a registered name it removes the plugin when \<open>destroy\<close>
  completes; when \<open>destroy\<close> throws, that error propagates and the table is unchanged, so
  the plugin stays registered.
\<close>

theorem C8_unregister:
  "(loader_get ps pluginName = None \<longrightarrow>
      unregister pluginName ps = (Inl (Error (''Plugin \"'' @ pluginName @ ''\" not found'')), ps))
   \<and> (loader_get ps pluginName = Some plugin \<and> pl_destroy plugin = None \<longrightarrow>
        fst (unregister pluginName ps) = Inr ()
        \<and> loader_get (snd (unregister pluginName ps)) pluginName = None)
   \<and> (loader_get ps pluginName = Some plugin \<and> pl_destroy plugin = Some e \<longrightarrow>
        unregister pluginName ps = (Inl e, ps))"
  by (simp add: unregister_def loader_get_def map_of_filter_key)

theorem C8_unregister_witness:
  "loader_get [(''fido2'', quiet_plugin)] ''wallet'' = None
   \<and> unregister ''wallet'' [(''fido2'', quiet_plugin)]
       = (Inl (Error ''Plugin \"wallet\" not found''), [(''fido2'', quiet_plugin)])
   \<and> loader_get [(''fido2'', quiet_plugin)] ''fido2'' = Some quiet_plugin
   \<and> pl_destroy quiet_plugin = None
   \<and> fst (unregister ''fido2'' [(''fido2'', quiet_plugin)]) = Inr ()
   \<and> loader_get (snd (unregister ''fido2'' [(''fido2'', quiet_plugin)])) ''fido2'' = None
   \<and> loader_get [(''fido2'', failing_plugin)] ''fido2'' = Some failing_plugin
   \<and> pl_destroy failing_plugin = Some (Error ''device busy'')
   \<and> unregister ''fido2'' [(''fido2'', failing_plugin)]
       = (Inl (Error ''device busy''), [(''fido2'', failing_plugin)])"
proof -
  have a: "unregister ''wallet'' [(''fido2'', quiet_plugin)]
       = (Inl (Error (''Plugin \"'' @ ''wallet'' @ ''\" not found'')), [(''fido2'', quiet_plugin)])"
    using C8_unregister [THEN conjunct1, rule_format, OF loader_demo(3)] .
  have b: "fst (unregister ''fido2'' [(''fido2'', quiet_plugin)]) = Inr ()
        \<and> loader_get (snd (unregister ''fido2'' [(''fido2'', quiet_plugin)])) ''fido2'' = None"
    using C8_unregister [THEN conjunct2, THEN conjunct1, rule_format,
        OF conjI [OF loader_demo(2) loader_demo(5)]] .
  have c: "unregister ''fido2'' [(''fido2'', failing_plugin)]
       = (Inl (Error ''device busy''), [(''fido2'', failing_plugin)])"
    using C8_unregister [THEN conjunct2, THEN conjunct2, rule_format,
        OF conjI [OF loader_demo(1) loader_demo(4)]] .
  from a have a': "unregister ''wallet'' [(''fido2'', quiet_plugin)]
       = (Inl (Error ''Plugin \"wallet\" not found''), [(''fido2'', quiet_plugin)])"
    by simp
  show ?thesis
    using a' b c loader_demo by blast
qed

text \<open>
  C8 as stated has the plugin removed even when \<open>destroy\<close> throws. With a plugin whose
  \<open>destroy\<close> throws, \<open>unregister\<close> raises that error and \<open>get\<close> still returns the plugin.
\<close>

theorem C8_failing_destroy_counterexample:
  "loader_get [(''fido2'', failing_plugin)] ''fido2'' = Some failing_plugin
   \<and> fst (unregister ''fido2'' [(''fido2'', failing_plugin)]) = Inl (Error ''device busy'')
   \<and> loader_get (snd (unregister ''fido2'' [(''fido2'', failing_plugin)])) ''fido2''
       = Some failing_plugin"
  by (simp add: unregister_def loader_get_def failing_plugin_def)

section \<open>FIDO2 provider: the claims\<close>

lemma authenticate_keeps_challenge:
  "ae_supported env \<Longrightarrow>
     challenges (snd (authenticate config env st)) (generateChallengeId (ae_idNow env) (ae_idRand env))
       = Some (ae_challenge env, ae_stamp env)"
  by (simp add: authenticate_def Let_def failure_def
      split: outcome.splits option.splits)

lemma register_consumes_challenge:
  "re_supported env \<Longrightarrow> re_options env = Resolved u \<Longrightarrow>
     challenges (snd (fido2_register config env userId st)) userId = None"
  by (simp add: fido2_register_def Let_def split: sum.splits)

lemma register_leaves_challenge:
  "re_supported env \<Longrightarrow> re_options env = Rejected e \<Longrightarrow>
     fido2_register config env userId st
       = (Inl e, st\<lparr>challenges := (challenges st)(userId \<mapsto> (re_challenge env, re_stamp env))\<rparr>)"
  by (simp add: fido2_register_def Let_def)

lemma authenticate_failure_keeps_credentials:
  "\<not> ar_success (fst (authenticate config env st)) \<Longrightarrow>
     credentials (snd (authenticate config env st)) = credentials st"
  by (auto simp: authenticate_def Let_def failure_def
      split: if_splits outcome.splits option.splits)

lemma demo_counter:
  "getCounterFromAuthData (as_authenticatorData (demo_assertion orig 5)) = Some 5"
  "getCounterFromAuthData (as_authenticatorData (demo_assertion orig 6)) = Some 6"
  by (simp_all add: getCounterFromAuthData_def demo_assertion_def)

lemma demo_env_facts:
  "ae_supported (demo_env a)"
  "ae_ceremony (demo_env a) = Resolved (Some a)"
  "credentials demo_provider (as_rawId (demo_assertion orig n)) = Some demo_credential"
  "as_clientData (demo_assertion orig n) = Resolved \<lparr>cd_type = ''webauthn.get'', cd_origin = orig\<rparr>"
  "c_counter demo_credential = 5"
  "origin demo_config = ''http://localhost:3000''"
  by (simp_all add: demo_env_def demo_provider_def demo_assertion_def demo_credential_def
      demo_config_def)

text \<open>
  C1, as the code has it. Take a registered credential with stored counter \<open>N\<close> and a call
  of \<open>authenticate\<close> whose assertion is for that credential and carries counter \<open>c\<close>. If
  \<open>c \<le> N\<close> the result is unsuccessful and the credential map, so the stored counter, is
  unchanged; when the assertion also passes the ceremony-type and origin checks, the
  reason is the counter rejection. If \<open>c > N\<close> and the assertion passes the ceremony-type
  and origin checks, the result is successful, names the credential's user, and the
  stored counter becomes exactly \<open>c\<close>.
\<close>

theorem C1_counter_check:
  assumes "ae_supported env"
    and "ae_ceremony env = Resolved (Some a)"
    and "credentials st (as_rawId a) = Some cred"
    and "getCounterFromAuthData (as_authenticatorData a) = Some c"
  shows "(c \<le> c_counter cred \<longrightarrow>
            \<not> ar_success (fst (authenticate config env st))
            \<and> credentials (snd (authenticate config env st)) = credentials st)
       \<and> (c \<le> c_counter cred \<and> as_clientData a = Resolved cd \<and> cd_type cd = ''webauthn.get''
            \<and> cd_origin cd = origin config \<longrightarrow>
            ar_error (fst (authenticate config env st))
              = Some ''Invalid counter - possible cloned authenticator'')
       \<and> (c_counter cred < c \<and> as_clientData a = Resolved cd \<and> cd_type cd = ''webauthn.get''
            \<and> cd_origin cd = origin config \<longrightarrow>
            ar_success (fst (authenticate config env st))
            \<and> ar_userId (fst (authenticate config env st)) = Some (c_userId cred)
            \<and> credentials (snd (authenticate config env st))
                = (credentials st)(as_rawId a \<mapsto> cred\<lparr>c_counter := c\<rparr>))"
  using assms
  by (simp add: authenticate_def Let_def failure_def split: outcome.splits)

theorem C1_counter_check_witness:
  "ae_supported (demo_env (demo_assertion ''http://localhost:3000'' 6))
   \<and> credentials demo_provider (as_rawId (demo_assertion ''http://localhost:3000'' 6))
       = Some demo_credential
   \<and> c_counter demo_credential = 5
   \<and> getCounterFromAuthData (as_authenticatorData (demo_assertion ''http://localhost:3000'' 6)) = Some 6
   \<and> ar_success (fst (authenticate demo_config
         (demo_env (demo_assertion ''http://localhost:3000'' 6)) demo_provider))
   \<and> credentials (snd (authenticate demo_config
         (demo_env (demo_assertion ''http://localhost:3000'' 6)) demo_provider))
       = (credentials demo_provider)(''cred-1'' \<mapsto> demo_credential\<lparr>c_counter := 6\<rparr>)
   \<and> getCounterFromAuthData (as_authenticatorData (demo_assertion ''http://localhost:3000'' 5)) = Some 5
   \<and> \<not> ar_success (fst (authenticate demo_config
         (demo_env (demo_assertion ''http://localhost:3000'' 5)) demo_provider))
   \<and> ar_error (fst (authenticate demo_config
         (demo_env (demo_assertion ''http://localhost:3000'' 5)) demo_provider))
       = Some ''Invalid counter - possible cloned authenticator''
   \<and> credentials (snd (authenticate demo_config
         (demo_env (demo_assertion ''http://localhost:3000'' 5)) demo_provider))
       = credentials demo_provider"
proof -
  let ?o = "''http://localhost:3000''"
  let ?cd = "\<lparr>cd_type = ''webauthn.get'', cd_origin = ?o\<rparr>"
  have passes: "as_clientData (demo_assertion ?o n) = Resolved ?cd \<and> cd_type ?cd = ''webauthn.get''
       \<and> cd_origin ?cd = origin demo_config" for n
    by (simp add: demo_env_facts)
  note six = C1_counter_check [where config = demo_config and cd = ?cd
      and a = "demo_assertion ?o 6" and env = "demo_env (demo_assertion ?o 6)",
      OF demo_env_facts(1) demo_env_facts(2) demo_env_facts(3) demo_counter(2)]
  note five = C1_counter_check [where config = demo_config and cd = ?cd
      and a = "demo_assertion ?o 5" and env = "demo_env (demo_assertion ?o 5)",
      OF demo_env_facts(1) demo_env_facts(2) demo_env_facts(3) demo_counter(1)]
  have up: "c_counter demo_credential < 6" and down: "(5::nat) \<le> c_counter demo_credential"
    by (simp_all add: demo_env_facts)
  have s6: "ar_success (fst (authenticate demo_config (demo_env (demo_assertion ?o 6)) demo_provider))
        \<and> ar_userId (fst (authenticate demo_config (demo_env (demo_assertion ?o 6)) demo_provider))
            = Some (c_userId demo_credential)
        \<and> credentials (snd (authenticate demo_config (demo_env (demo_assertion ?o 6)) demo_provider))
            = (credentials demo_provider)(as_rawId (demo_assertion ?o 6)
                 \<mapsto> demo_credential\<lparr>c_counter := 6\<rparr>)"
    using six [THEN conjunct2, THEN conjunct2, rule_format, OF conjI [OF up passes]] .
  have r5: "\<not> ar_success (fst (authenticate demo_config (demo_env (demo_assertion ?o 5)) demo_provider))
        \<and> credentials (snd (authenticate demo_config (demo_env (demo_assertion ?o 5)) demo_provider))
            = credentials demo_provider"
    using five [THEN conjunct1, rule_format, OF down] .
  have e5: "ar_error (fst (authenticate demo_config (demo_env (demo_assertion ?o 5)) demo_provider))
       = Some ''Invalid counter - possible cloned authenticator''"
    using five [THEN conjunct2, THEN conjunct1, rule_format, OF conjI [OF down passes]] .
  have key: "as_rawId (demo_assertion ?o 6) = ''cred-1''"
    by (simp add: demo_assertion_def)
  show ?thesis
    using s6 r5 e5 by (simp add: demo_env_facts demo_counter key demo_provider_def)
qed

text \<open>
  C1 as stated lets every assertion with a counter above \<open>N\<close> succeed. The origin check
  comes before the counter check: an assertion from another origin with counter 6, against
  stored counter 5, is rejected, and the stored counter stays 5.
\<close>

theorem C1_origin_counterexample:
  "credentials demo_provider (as_rawId (demo_assertion ''https://evil.example'' 6))
       = Some demo_credential
   \<and> c_counter demo_credential = 5
   \<and> getCounterFromAuthData (as_authenticatorData (demo_assertion ''https://evil.example'' 6)) = Some 6
   \<and> \<not> ar_success (fst (authenticate demo_config
         (demo_env (demo_assertion ''https://evil.example'' 6)) demo_provider))
   \<and> credentials (snd (authenticate demo_config
         (demo_env (demo_assertion ''https://evil.example'' 6)) demo_provider))
       = credentials demo_provider"
  by (simp add: demo_counter demo_env_facts)
     (simp add: authenticate_def demo_env_def demo_assertion_def demo_provider_def
      demo_config_def demo_credential_def failure_def Let_def)

text \<open>
  C2 says that every attempt deletes the challenge it was made against. \<open>register\<close>
  deletes its challenge on success and in its \<open>catch\<close>; \<open>authenticate\<close> stores a challenge
  under a fresh challenge id and has no statement that deletes it. After a successful
  authentication, and after one rejected as a replay, the challenge is still in the map.
\<close>

theorem C2_authenticate_leaves_challenge:
  "ar_success (fst (authenticate demo_config
       (demo_env (demo_assertion ''http://localhost:3000'' 6)) demo_provider))
   \<and> challenges (snd (authenticate demo_config
       (demo_env (demo_assertion ''http://localhost:3000'' 6)) demo_provider))
       ''challenge-1700000000000-k3j9x'' = Some (replicate 32 7, 1700000000000)
   \<and> \<not> ar_success (fst (authenticate demo_config
       (demo_env (demo_assertion ''http://localhost:3000'' 5)) demo_provider))
   \<and> challenges (snd (authenticate demo_config
       (demo_env (demo_assertion ''http://localhost:3000'' 5)) demo_provider))
       ''challenge-1700000000000-k3j9x'' = Some (replicate 32 7, 1700000000000)"
proof -
  have cid: "generateChallengeId 1700000000000 ''k3j9x'' = ''challenge-1700000000000-k3j9x''"
    by (simp add: generateChallengeId_def timestamp_demo)
  have kept: "challenges (snd (authenticate demo_config (demo_env a) demo_provider))
       ''challenge-1700000000000-k3j9x'' = Some (replicate 32 7, 1700000000000)" for a
    using authenticate_keeps_challenge [of "demo_env a" demo_config demo_provider]
    by (simp add: demo_env_def cid)
  have ok: "ar_success (fst (authenticate demo_config
       (demo_env (demo_assertion ''http://localhost:3000'' 6)) demo_provider))"
    by (simp add: authenticate_def demo_env_def demo_provider_def demo_config_def
        demo_credential_def demo_assertion_def getCounterFromAuthData_def Let_def)
  have replay: "\<not> ar_success (fst (authenticate demo_config
       (demo_env (demo_assertion ''http://localhost:3000'' 5)) demo_provider))"
    by (simp add: authenticate_def demo_env_def demo_provider_def demo_config_def
        demo_credential_def demo_assertion_def getCounterFromAuthData_def failure_def Let_def)
  show ?thesis
    using kept ok replay by blast
qed

end
